theory Spec2Isabelle
  imports Complex_Main
begin

section \<open>The simple AHRS estimator of ahrs/ahrs\_simple.go\<close>

text \<open>
  The estimator keeps a fused attitude (roll, pitch, heading), the attitude derived from
  the last GPS velocity, and the attitude quaternion. \<open>Compute\<close> takes one measurement
  and either ignores it, re-initialises the state from it, or advances the state.

  Numbers: the Go code computes in \<open>float64\<close>. Here a \<open>float64\<close> is read as the real
  number it stands for, so \<open>+\<close>, \<open>-\<close>, \<open>*\<close>, \<open>/\<close> and the comparisons are those of
  \<open>real\<close>: rounding, overflow, NaN and the infinities are outside the model. Where the
  Go code would divide by zero (and produce NaN or an infinity) HOL's \<open>x / 0 = 0\<close> says
  nothing about the program: the examples evaluate the increments of lines 113-135 only
  at quaternions where no divisor is zero, and the theorem that rests on the value of
  these increments assumes that none is (\<open>increments_defined\<close>).
\<close>

subsection \<open>Constants\<close>

text \<open>Lines 9-14: the thresholds and the reversion constant.\<close>

definition MinDT :: real where
  "MinDT = 0.000001"

definition MaxDT :: real where
  "MaxDT = 10"

definition MinGS :: real where
  "MinGS = 10"

definition K :: real where
  "K = 0.9"

text \<open>
  Modelled from the spec: the package constant \<open>Pi\<close>, declared in a file of package
  \<open>ahrs\<close> that is not among the sources. The spec writes it \<open>\<pi>\<close>: the default
  heading \<open>Pi/2\<close> of \<open>init\<close> is "\<open>\<pi>/2\<close>" there, and the wrap by \<open>2*Pi\<close> is the
  wrap "into (-\<pi>, \<pi>]".
\<close>

definition Pi :: real where
  "Pi = pi"

subsection \<open>Go's math package\<close>

text \<open>
  \<open>math.Hypot\<close>, \<open>math.Atan\<close>, \<open>math.Sqrt\<close> and \<open>math.Atan2\<close> on real numbers.
  \<open>Atan2 y x\<close> is the angle of the point \<open>(x, y)\<close> in \<open>(-\<pi>, \<pi>]\<close>, with
  \<open>Atan2 0 0 = 0\<close> as in Go.
\<close>

definition Hypot :: "real \<Rightarrow> real \<Rightarrow> real" where
  "Hypot p q = sqrt (p * p + q * q)"

definition Atan :: "real \<Rightarrow> real" where
  "Atan x = arctan x"

definition Sqrt :: "real \<Rightarrow> real" where
  "Sqrt x = sqrt x"

definition Atan2 :: "real \<Rightarrow> real \<Rightarrow> real" where
  "Atan2 y x =
     (if 0 < x then arctan (y / x)
      else if x < 0 then (if 0 \<le> y then arctan (y / x) + pi else arctan (y / x) - pi)
      else if 0 < y then pi / 2
      else if y < 0 then - (pi / 2)
      else 0)"

subsection \<open>Data\<close>

text \<open>
  \<open>Measurement\<close> and \<open>State\<close> are declared in files of the package that are not among
  the sources; the records hold the fields that ahrs\_simple.go reads and writes.
  \<open>M\<close> and \<open>N\<close> are the two matrices that \<open>InitializeSimple\<close> allocates.
\<close>

record Measurement =
  T :: real
  WValid :: bool
  W1 :: real
  W2 :: real
  W3 :: real
  B1 :: real
  B2 :: real
  B3 :: real

record State =
  T :: real
  E0 :: real
  E1 :: real
  E2 :: real
  E3 :: real
  M :: "real list list"
  N :: "real list list"

text \<open>Lines 16-22: \<open>SimpleState\<close> embeds \<open>State\<close>.\<close>

record SimpleState = State +
  rollGPS :: real
  pitchGPS :: real
  headingGPS :: real
  roll :: real
  pitch :: real
  heading :: real
  w1 :: real
  w2 :: real
  w3 :: real
  gs :: real
  tr :: real

type_synonym quaternion = "real \<times> real \<times> real \<times> real"

text \<open>
  The functions \<open>ToQuaternion\<close>, \<open>QuaternionRotate\<close> and \<open>Regularize\<close> and the
  constants \<open>G\<close> and \<open>Deg\<close> belong to package \<open>ahrs\<close> but not to its sources given
  here. The estimator takes them as parameters: every function below has the package
  \<open>e\<close> as its first argument, and the theorems hold for whatever these five are.
\<close>

record pkg =
  ToQuaternion :: "real \<Rightarrow> real \<Rightarrow> real \<Rightarrow> quaternion"
  QuaternionRotate ::
    "real \<Rightarrow> real \<Rightarrow> real \<Rightarrow> real \<Rightarrow> real \<Rightarrow> real \<Rightarrow> real \<Rightarrow> quaternion"
  Regularize :: "real \<Rightarrow> real \<Rightarrow> real \<Rightarrow> real \<times> real \<times> real"
  G :: real
  Deg :: real

subsection \<open>Initialisation\<close>

text \<open>Lines 32-61. Each \<open>let\<close> is one group of assignments to \<open>s\<close>, in the order of the code.\<close>

definition init :: "pkg \<Rightarrow> SimpleState \<Rightarrow> Measurement \<Rightarrow> SimpleState" where
  "init e s m =
     (let s = s\<lparr>T := Measurement.T m\<rparr>;
          s = (if WValid m
               then s\<lparr>gs := Hypot (W1 m) (W2 m), w1 := W1 m, w2 := W2 m, w3 := W3 m\<rparr>
               else s\<lparr>gs := 0, w1 := 0, w2 := 0, w3 := 0\<rparr>);
          s = s\<lparr>tr := 0, rollGPS := 0\<rparr>;
          s = (if MinGS < gs s
               then s\<lparr>headingGPS := Atan2 (W1 m) (W2 m), pitchGPS := Atan2 (W3 m) (gs s)\<rparr>
               else s\<lparr>headingGPS := Pi / 2, pitchGPS := 0\<rparr>);
          s = s\<lparr>roll := rollGPS s\<rparr>;
          s = s\<lparr>pitch := pitchGPS s\<rparr>;
          s = s\<lparr>heading := headingGPS s\<rparr>;
          (q0, q1, q2, q3) = ToQuaternion e (roll s) (pitch s) (heading s)
      in s\<lparr>E0 := q0, E1 := q1, E2 := q2, E3 := q3\<rparr>)"

text \<open>
  Lines 24-30. \<open>new(SimpleState)\<close> is the state with every number zero and both matrix
  pointers nil (the empty matrix here); \<open>matrix.Zeros r c\<close> is the \<open>r\<close> by \<open>c\<close>
  matrix of zeros.
\<close>

definition Zeros :: "nat \<Rightarrow> nat \<Rightarrow> real list list" where
  "Zeros r c = replicate r (replicate c 0)"

definition new_SimpleState :: SimpleState where
  "new_SimpleState =
     \<lparr>T = 0, E0 = 0, E1 = 0, E2 = 0, E3 = 0, M = [], N = [],
      rollGPS = 0, pitchGPS = 0, headingGPS = 0, roll = 0, pitch = 0, heading = 0,
      w1 = 0, w2 = 0, w3 = 0, gs = 0, tr = 0\<rparr>"

definition InitializeSimple :: "pkg \<Rightarrow> Measurement \<Rightarrow> SimpleState" where
  "InitializeSimple e m =
     (let s = new_SimpleState;
          s = s\<lparr>M := Zeros 32 32\<rparr>;
          s = s\<lparr>N := Zeros 32 32\<rparr>
      in init e s m)"

subsection \<open>Update\<close>

text \<open>
  Lines 82-102, the GPS part of \<open>Update\<close>: the groundspeed, then either the turn rate
  and the GPS attitude from the velocity, or the hold at the fused attitude.
\<close>

definition gps_refresh :: "pkg \<Rightarrow> SimpleState \<Rightarrow> Measurement \<Rightarrow> real \<Rightarrow> SimpleState" where
  "gps_refresh e s m dt =
     (let s = (if WValid m then s\<lparr>gs := Hypot (W1 m) (W2 m)\<rparr> else s)
      in if WValid m \<and> MinGS < gs s
         then
           (let s = s\<lparr>tr := 0.9 * tr s
                      + 0.1 * (W2 m * (W1 m - w1 s) - W1 m * (W2 m - w2 s)) / (gs s * gs s) / dt\<rparr>;
                s = s\<lparr>rollGPS := Atan (gs s * tr s / G e)\<rparr>;
                s = s\<lparr>pitchGPS := Atan2 (W3 m) (gs s)\<rparr>;
                s = s\<lparr>headingGPS := Atan2 (W1 m) (W2 m)\<rparr>
            in s\<lparr>w1 := W1 m, w2 := W2 m, w3 := W3 m\<rparr>)
         else
           (let s = s\<lparr>tr := 0\<rparr>;
                s = s\<lparr>rollGPS := roll s\<rparr>;
                s = s\<lparr>pitchGPS := pitch s\<rparr>;
                s = s\<lparr>headingGPS := heading s\<rparr>
            in s\<lparr>w1 := 0, w2 := 0, w3 := 0\<rparr>))"

text \<open>
  Lines 104-109: the quaternion rotated by the gyro rates over \<open>dt\<close>, minus the
  quaternion itself.
\<close>

definition quaternion_increment ::
    "pkg \<Rightarrow> SimpleState \<Rightarrow> Measurement \<Rightarrow> real \<Rightarrow> quaternion" where
  "quaternion_increment e s m dt =
     (let (dq0, dq1, dq2, dq3) =
            QuaternionRotate e (E0 s) (E1 s) (E2 s) (E3 s)
              (B1 m * Deg e * dt) (B2 m * Deg e * dt) (B3 m * Deg e * dt)
      in (dq0 - E0 s, dq1 - E1 s, dq2 - E2 s, dq3 - E3 s))"

text \<open>Lines 113-117: the roll increment \<open>dr\<close>.\<close>

fun roll_increment :: "quaternion \<Rightarrow> quaternion \<Rightarrow> real" where
  "roll_increment (q0, q1, q2, q3) (dq0, dq1, dq2, dq3) =
     (let rx = 2 * (q0 * q1 + q2 * q3);
          ry = q0 * q0 - q1 * q1 - q2 * q2 - q3 * q3;
          drx = 2 * (q1 * dq0 + q0 * dq1 + q3 * dq2 + q2 * dq3);
          dry = 2 * (q0 * dq0 - q1 * dq1 - q2 * dq2 + q3 * dq3)
      in (ry * drx - rx * dry) / (rx * rx + ry * ry))"

text \<open>Lines 122-126: the pitch increment \<open>dp\<close>.\<close>

fun pitch_increment :: "quaternion \<Rightarrow> quaternion \<Rightarrow> real" where
  "pitch_increment (q0, q1, q2, q3) (dq0, dq1, dq2, dq3) =
     (let px = - 2 * (q0 * q2 - q3 * q1);
          py = q0 * q0 + q1 * q1 + q2 * q2 + q3 * q3;
          dpx = - 2 * (q2 * dq0 - q3 * dq1 + q0 * dq2 - q1 * dq3);
          dpy = 2 * (q0 * dq0 + q1 * dq1 + q2 * dq2 + q3 * dq3)
      in (py * dpx - px * dpy) / (py * Sqrt (py * py - px * px)))"

text \<open>Lines 131-135: the heading increment \<open>dh\<close>.\<close>

fun heading_increment :: "quaternion \<Rightarrow> quaternion \<Rightarrow> real" where
  "heading_increment (q0, q1, q2, q3) (dq0, dq1, dq2, dq3) =
     (let hx = - 2 * (q0 * q3 - q1 * q2);
          hy = q0 * q0 + q1 * q1 - q2 * q2 - q3 * q3;
          dhx = - 2 * (q3 * dq0 - q2 * dq1 - q1 * dq2 + q0 * dq3);
          dhy = 2 * (q0 * dq0 + q1 * dq1 - q2 * dq2 - q3 * dq3)
      in (hy * dhx - hx * dhy) / (hx * hx + hy * hy))"

text \<open>
  Lines 141-146 and 153-155: the test that the code makes three times, once per angle.
  \<open>damp d x\<close> is the increment \<open>x\<close> after the test against the discrepancy \<open>d\<close>.
\<close>

definition damp :: "real \<Rightarrow> real \<Rightarrow> real" where
  "damp d x = (if 0 < d * x then x * K else x)"

text \<open>Lines 147-152: the heading discrepancy \<open>ddh\<close>.\<close>

definition heading_discrepancy :: "real \<Rightarrow> real \<Rightarrow> real" where
  "heading_discrepancy h hGPS =
     (let ddh = h - hGPS
      in if Pi < ddh then ddh - 2 * Pi
         else if ddh < - Pi then ddh + 2 * Pi
         else ddh)"

text \<open>Lines 72-165.\<close>

definition Update :: "pkg \<Rightarrow> SimpleState \<Rightarrow> Measurement \<Rightarrow> SimpleState" where
  "Update e s m =
     (let dt = Measurement.T m - T s
      in if dt < MinDT then s
         else if MaxDT < dt then init e s m
         else
           (let s = gps_refresh e s m dt;
                q = (E0 s, E1 s, E2 s, E3 s);
                dq = quaternion_increment e s m dt;
                dr = roll_increment q dq;
                dp = pitch_increment q dq;
                dh = heading_increment q dq;
                dp = damp (pitch s - pitchGPS s) dp;
                dr = damp (roll s - rollGPS s) dr;
                dh = damp (heading_discrepancy (heading s) (headingGPS s)) dh;
                s = s\<lparr>pitch := pitch s + dp\<rparr>;
                s = s\<lparr>roll := roll s + dr\<rparr>;
                s = s\<lparr>heading := heading s + dh\<rparr>;
                (r, p, h) = Regularize e (roll s) (pitch s) (heading s);
                s = s\<lparr>roll := r, pitch := p, heading := h\<rparr>;
                (q0, q1, q2, q3) = ToQuaternion e (roll s) (pitch s) (heading s);
                s = s\<lparr>E0 := q0, E1 := q1, E2 := q2, E3 := q3\<rparr>
            in s\<lparr>T := Measurement.T m\<rparr>))"

text \<open>Lines 63-70: \<open>Predict\<close> does nothing; \<open>Compute\<close> is \<open>Predict\<close>, then \<open>Update\<close>.\<close>

definition Predict :: "SimpleState \<Rightarrow> real \<Rightarrow> SimpleState" where
  "Predict s t = s"

definition Compute :: "pkg \<Rightarrow> SimpleState \<Rightarrow> Measurement \<Rightarrow> SimpleState" where
  "Compute e s m = Update e (Predict s (Measurement.T m)) m"

text \<open>Lines 171-179: the two outputs.\<close>

definition CalcRollPitchHeading :: "SimpleState \<Rightarrow> real \<times> real \<times> real" where
  "CalcRollPitchHeading s = (roll s, pitch s, heading s)"

definition CalcGPSRollPitchHeading :: "SimpleState \<Rightarrow> real \<times> real \<times> real" where
  "CalcGPSRollPitchHeading s = (rollGPS s, pitchGPS s, headingGPS s)"

subsection \<open>What the properties speak of\<close>

text \<open>
  The quaternion of a state agrees with its fused angles when it is \<open>ToQuaternion\<close> of
  them.
\<close>

definition consistent :: "pkg \<Rightarrow> SimpleState \<Rightarrow> bool" where
  "consistent e s \<longleftrightarrow>
     (E0 s, E1 s, E2 s, E3 s) = ToQuaternion e (roll s) (pitch s) (heading s)"

text \<open>The states an estimator can be in: made by \<open>InitializeSimple\<close>, then fed by \<open>Compute\<close>.\<close>

inductive reachable :: "pkg \<Rightarrow> SimpleState \<Rightarrow> bool" for e :: pkg where
  initial: "reachable e (InitializeSimple e m)"
| computed: "reachable e s \<Longrightarrow> reachable e (Compute e s m)"

text \<open>
  Three views of the normal branch of \<open>Update\<close> (lines 82-155), each built from the
  functions above exactly as \<open>Update\<close> builds it: the GPS attitude after lines 82-102,
  the increments \<open>(dr, dp, dh)\<close> after line 135 and before the damping, and the three
  discrepancies that lines 141-155 multiply with them.
\<close>

definition gps_reference :: "pkg \<Rightarrow> SimpleState \<Rightarrow> Measurement \<Rightarrow> real \<times> real \<times> real" where
  "gps_reference e s m =
     CalcGPSRollPitchHeading (gps_refresh e s m (Measurement.T m - T s))"

definition raw_increments :: "pkg \<Rightarrow> SimpleState \<Rightarrow> Measurement \<Rightarrow> real \<times> real \<times> real" where
  "raw_increments e s m =
     (let dt = Measurement.T m - T s;
          s = gps_refresh e s m dt;
          q = (E0 s, E1 s, E2 s, E3 s);
          dq = quaternion_increment e s m dt
      in (roll_increment q dq, pitch_increment q dq, heading_increment q dq))"

definition discrepancies :: "pkg \<Rightarrow> SimpleState \<Rightarrow> Measurement \<Rightarrow> real \<times> real \<times> real" where
  "discrepancies e s m =
     (let s = gps_refresh e s m (Measurement.T m - T s)
      in (roll s - rollGPS s, pitch s - pitchGPS s,
          heading_discrepancy (heading s) (headingGPS s)))"

text \<open>
  The three divisors of lines 117, 126 and 135 are not zero at this quaternion: no
  increment is the quotient of a division by zero.
\<close>

fun increments_defined :: "quaternion \<Rightarrow> bool" where
  "increments_defined (q0, q1, q2, q3) =
     (let rx = 2 * (q0 * q1 + q2 * q3);
          ry = q0 * q0 - q1 * q1 - q2 * q2 - q3 * q3;
          px = - 2 * (q0 * q2 - q3 * q1);
          py = q0 * q0 + q1 * q1 + q2 * q2 + q3 * q3;
          hx = - 2 * (q0 * q3 - q1 * q2);
          hy = q0 * q0 + q1 * q1 - q2 * q2 - q3 * q3
      in rx * rx + ry * ry \<noteq> 0 \<and> py * Sqrt (py * py - px * px) \<noteq> 0 \<and> hx * hx + hy * hy \<noteq> 0)"

text \<open>
  The roll increment in the spec's words (4.3, Step 4, and claim C3), for comparison with
  \<open>roll_increment\<close>: the quotient-rule differential of \<open>atan2(rx, ry)\<close>, where \<open>ry\<close> is
  the standard roll denominator \<open>q0\<^sup>2 - q1\<^sup>2 - q2\<^sup>2 + q3\<^sup>2\<close> and \<open>drx\<close>, \<open>dry\<close> are the
  first-order differentials of \<open>rx\<close> and \<open>ry\<close>.
\<close>

fun spec_roll_increment :: "quaternion \<Rightarrow> quaternion \<Rightarrow> real" where
  "spec_roll_increment (q0, q1, q2, q3) (dq0, dq1, dq2, dq3) =
     (let rx = 2 * (q0 * q1 + q2 * q3);
          ry = q0\<^sup>2 - q1\<^sup>2 - q2\<^sup>2 + q3\<^sup>2;
          drx = 2 * (q1 * dq0 + q0 * dq1 + q3 * dq2 + q2 * dq3);
          dry = 2 * (q0 * dq0 - q1 * dq1 - q2 * dq2 + q3 * dq3)
      in (ry * drx - rx * dry) / (rx\<^sup>2 + ry\<^sup>2))"

subsection \<open>A reference package and sample inputs\<close>

text \<open>
  The package of the examples. Its three functions and two constants stand for those of
  package \<open>ahrs\<close> that the sources given here do not contain; no general theorem
  depends on them.
\<close>

text \<open>
  Modelled from the spec: \<open>ToQuaternion\<close>, which is not among the sources. Spec 4.1
  (eulerToQuaternion): the unit quaternion of the three angles, in a convention that
  agrees with the extraction of Step 4. Here: the quaternion of yaw, then pitch, then
  roll, with pitch and heading counted in the opposite sense (the log lines 129 and 138
  compare \<open>dp\<close> with \<open>-B2*dt\<close> and \<open>dh\<close> with \<open>-B3*dt\<close>). With it the formulas of lines
  113 and 122-123, and the standard \<open>ry\<close>, return roll and pitch at every attitude, and
  those of lines 131-132 return the heading at level attitude
  (\<open>ref_ToQuaternion_roll_pitch\<close>, \<open>ref_ToQuaternion_heading\<close>).
\<close>

definition ref_ToQuaternion :: "real \<Rightarrow> real \<Rightarrow> real \<Rightarrow> quaternion" where
  "ref_ToQuaternion r p h =
     (let cr = cos (r / 2); sr = sin (r / 2);
          cp = cos (p / 2); sp = sin (p / 2);
          ch = cos (h / 2); sh = sin (h / 2)
      in (cr * cp * ch + sr * sp * sh,
          sr * cp * ch - cr * sp * sh,
          - (cr * sp * ch) - sr * cp * sh,
          sr * sp * ch - cr * cp * sh))"

text \<open>
  Modelled from the spec: \<open>QuaternionRotate\<close>, which is not among the sources. Spec 4.1
  (rotateQuaternion): the quaternion composed with a small rotation, here the quaternion
  product with \<open>(1, d1/2, d2/2, d3/2)\<close>.
\<close>

definition ref_QuaternionRotate ::
    "real \<Rightarrow> real \<Rightarrow> real \<Rightarrow> real \<Rightarrow> real \<Rightarrow> real \<Rightarrow> real \<Rightarrow> quaternion" where
  "ref_QuaternionRotate q0 q1 q2 q3 d1 d2 d3 =
     (q0 - (q1 * d1 + q2 * d2 + q3 * d3) / 2,
      q1 + (q0 * d1 + q2 * d3 - q3 * d2) / 2,
      q2 + (q0 * d2 + q3 * d1 - q1 * d3) / 2,
      q3 + (q0 * d3 + q1 * d2 - q2 * d1) / 2)"

text \<open>
  An angle wrapped into \<open>(-\<pi>, \<pi>]\<close>, in the words of the spec (4.1 and 4.3, Step 5): the
  angle of that interval that differs from \<open>x\<close> by a multiple of \<open>2\<pi>\<close>
  (\<open>wrap_angle_range\<close>, \<open>wrap_angle_periodic\<close>).
\<close>

definition wrap_angle :: "real \<Rightarrow> real" where
  "wrap_angle x = x - 2 * pi * of_int \<lceil>(x - pi) / (2 * pi)\<rceil>"

text \<open>
  Modelled from the spec: \<open>Regularize\<close>, which is not among the sources. Spec 4.1
  (regularize): roll and heading wrapped into \<open>(-\<pi>, \<pi>]\<close>, and pitch by the same rule.
\<close>

definition ref_Regularize :: "real \<Rightarrow> real \<Rightarrow> real \<Rightarrow> real \<times> real \<times> real" where
  "ref_Regularize r p h = (wrap_angle r, wrap_angle p, wrap_angle h)"

text \<open>
  Modelled from the spec: the constants \<open>G\<close> and \<open>Deg\<close>, which are not among the
  sources. Spec 6: \<open>G\<close> is standard gravity (9.80665 metres per second squared) in
  knots per second, \<open>Deg\<close> is one degree in radians.
\<close>

definition ref_pkg :: pkg where
  "ref_pkg =
     \<lparr>ToQuaternion = ref_ToQuaternion, QuaternionRotate = ref_QuaternionRotate,
      Regularize = ref_Regularize, G = 9.80665 / 0.514444, Deg = pi / 180\<rparr>"

text \<open>
  Sample measurements: northbound at 20 kt at time 0; then, at time 1, eastbound at
  20 kt with the gyro at rest, slow (5 kt) with the gyro turning, and without GPS; and
  one at time 11.5.
\<close>

definition m_north :: Measurement where
  "m_north = \<lparr>Measurement.T = 0, WValid = True, W1 = 0, W2 = 20, W3 = 0,
               B1 = 0, B2 = 0, B3 = 0\<rparr>"

definition m_east :: Measurement where
  "m_east = \<lparr>Measurement.T = 1, WValid = True, W1 = 20, W2 = 0, W3 = 0,
              B1 = 0, B2 = 0, B3 = 0\<rparr>"

definition m_slow :: Measurement where
  "m_slow = \<lparr>Measurement.T = 1, WValid = True, W1 = 3, W2 = 4, W3 = 0,
              B1 = 1, B2 = 2, B3 = 3\<rparr>"

definition m_nogps :: Measurement where
  "m_nogps = \<lparr>Measurement.T = 1, WValid = False, W1 = 20, W2 = 0, W3 = 0,
               B1 = 1, B2 = 2, B3 = 3\<rparr>"

definition m_late :: Measurement where
  "m_late = \<lparr>Measurement.T = 11.5, WValid = True, W1 = 20, W2 = 0, W3 = 0,
              B1 = 1, B2 = 2, B3 = 3\<rparr>"

text \<open>
  Three more at time 1: southbound at 20 kt, eastbound with a yaw rate of 18 degrees
  per second, and southbound with the same yaw rate.
\<close>

definition m_south :: Measurement where
  "m_south = \<lparr>Measurement.T = 1, WValid = True, W1 = 0, W2 = - 20, W3 = 0,
               B1 = 0, B2 = 0, B3 = 0\<rparr>"

definition m_turn :: Measurement where
  "m_turn = \<lparr>Measurement.T = 1, WValid = True, W1 = 20, W2 = 0, W3 = 0,
              B1 = 0, B2 = 0, B3 = 18\<rparr>"

definition m_south_turn :: Measurement where
  "m_south_turn = \<lparr>Measurement.T = 1, WValid = True, W1 = 0, W2 = - 20, W3 = 0,
                    B1 = 0, B2 = 0, B3 = 18\<rparr>"

text \<open>The estimator made from \<open>m_north\<close>.\<close>

definition s_north :: SimpleState where
  "s_north = InitializeSimple ref_pkg m_north"

text \<open>
  A level estimator at rest: roll, pitch and heading 0, the quaternion of these angles,
  no groundspeed, time 0.
\<close>

definition s_level :: SimpleState where
  "s_level =
     \<lparr>T = 0, E0 = 1, E1 = 0, E2 = 0, E3 = 0, M = Zeros 32 32, N = Zeros 32 32,
      rollGPS = 0, pitchGPS = 0, headingGPS = 0, roll = 0, pitch = 0, heading = 0,
      w1 = 0, w2 = 0, w3 = 0, gs = 0, tr = 0\<rparr>"

section \<open>Properties\<close>

subsection \<open>Basic facts\<close>

lemma MinDT_less_MaxDT: "MinDT < MaxDT"
  by (simp add: MinDT_def MaxDT_def)

lemma init_fields:
  "T (init e s m) = Measurement.T m"
  "M (init e s m) = M s"
  "N (init e s m) = N s"
  "tr (init e s m) = 0"
  "rollGPS (init e s m) = 0"
  "roll (init e s m) = 0"
  "pitch (init e s m) = pitchGPS (init e s m)"
  "heading (init e s m) = headingGPS (init e s m)"
  by (simp_all add: init_def Let_def split: prod.splits)

lemma init_consistent: "consistent e (init e s m)"
  by (simp add: consistent_def init_def Let_def split: prod.splits)

text \<open>\<open>init\<close> overwrites every field but the two matrices.\<close>

lemma init_any_state: "init e s m = (init e s' m)\<lparr>M := M s, N := N s\<rparr>"
  by (cases s, cases s') (simp add: init_def Let_def split: prod.splits)

lemma gps_refresh_keeps:
  "roll (gps_refresh e s m dt) = roll s"
  "pitch (gps_refresh e s m dt) = pitch s"
  "heading (gps_refresh e s m dt) = heading s"
  "E0 (gps_refresh e s m dt) = E0 s"
  "E1 (gps_refresh e s m dt) = E1 s"
  "E2 (gps_refresh e s m dt) = E2 s"
  "E3 (gps_refresh e s m dt) = E3 s"
  "T (gps_refresh e s m dt) = T s"
  "M (gps_refresh e s m dt) = M s"
  "N (gps_refresh e s m dt) = N s"
  by (simp_all add: gps_refresh_def Let_def)

lemma gps_refresh_hold:
  assumes "\<not> WValid m \<or> Hypot (W1 m) (W2 m) \<le> MinGS"
  shows "rollGPS (gps_refresh e s m dt) = roll s"
    and "pitchGPS (gps_refresh e s m dt) = pitch s"
    and "headingGPS (gps_refresh e s m dt) = heading s"
    and "tr (gps_refresh e s m dt) = 0"
    and "w1 (gps_refresh e s m dt) = 0"
    and "w2 (gps_refresh e s m dt) = 0"
    and "w3 (gps_refresh e s m dt) = 0"
  using assms by (auto simp add: gps_refresh_def Let_def)

lemma gps_refresh_valid:
  assumes "WValid m" and "MinGS < Hypot (W1 m) (W2 m)"
  shows "gs (gps_refresh e s m dt) = Hypot (W1 m) (W2 m)"
    and "tr (gps_refresh e s m dt) =
           0.9 * tr s + 0.1 * (W2 m * (W1 m - w1 s) - W1 m * (W2 m - w2 s))
             / (Hypot (W1 m) (W2 m))\<^sup>2 / dt"
    and "rollGPS (gps_refresh e s m dt) =
           arctan (Hypot (W1 m) (W2 m) * tr (gps_refresh e s m dt) / G e)"
    and "pitchGPS (gps_refresh e s m dt) = Atan2 (W3 m) (Hypot (W1 m) (W2 m))"
    and "headingGPS (gps_refresh e s m dt) = Atan2 (W1 m) (W2 m)"
    and "w1 (gps_refresh e s m dt) = W1 m"
    and "w2 (gps_refresh e s m dt) = W2 m"
    and "w3 (gps_refresh e s m dt) = W3 m"
  using assms by (simp_all add: gps_refresh_def Let_def Atan_def power2_eq_square)

text \<open>A normal update leaves the GPS part as lines 82-102 made it.\<close>

lemma Update_normal_gps:
  assumes "MinDT \<le> Measurement.T m - T s" and "Measurement.T m - T s \<le> MaxDT"
  shows "rollGPS (Update e s m) = rollGPS (gps_refresh e s m (Measurement.T m - T s))"
    and "pitchGPS (Update e s m) = pitchGPS (gps_refresh e s m (Measurement.T m - T s))"
    and "headingGPS (Update e s m) = headingGPS (gps_refresh e s m (Measurement.T m - T s))"
    and "tr (Update e s m) = tr (gps_refresh e s m (Measurement.T m - T s))"
    and "gs (Update e s m) = gs (gps_refresh e s m (Measurement.T m - T s))"
    and "w1 (Update e s m) = w1 (gps_refresh e s m (Measurement.T m - T s))"
    and "w2 (Update e s m) = w2 (gps_refresh e s m (Measurement.T m - T s))"
    and "w3 (Update e s m) = w3 (gps_refresh e s m (Measurement.T m - T s))"
  using assms by (simp_all add: Update_def Let_def split: prod.splits)

text \<open>
  The fused angles after a normal update: \<open>Regularize\<close> of the old angles plus the
  increments, each increment having passed the test of lines 141-155.
\<close>

lemma Update_normal_fused:
  assumes "MinDT \<le> Measurement.T m - T s" and "Measurement.T m - T s \<le> MaxDT"
    and "raw_increments e s m = (dr, dp, dh)"
    and "discrepancies e s m = (er, ep, eh)"
  shows "CalcRollPitchHeading (Update e s m) =
           Regularize e (roll s + damp er dr) (pitch s + damp ep dp) (heading s + damp eh dh)"
  using assms
  by (simp add: Update_def Let_def CalcRollPitchHeading_def raw_increments_def
      discrepancies_def gps_refresh_keeps split: prod.splits)

lemma Update_consistent:
  assumes "\<not> Measurement.T m - T s < MinDT"
  shows "consistent e (Update e s m)"
  using assms init_consistent [of e s m]
  by (simp add: Update_def Let_def consistent_def split: prod.splits)

lemma wrap_angle_0: "wrap_angle 0 = 0"
proof -
  have "\<lceil>- (1 / 2) :: real\<rceil> = 0" by (simp add: ceiling_eq_iff)
  then show ?thesis by (simp add: wrap_angle_def)
qed

text \<open>The reference \<open>ToQuaternion\<close> returns unit quaternions, as the spec asks.\<close>

lemma half_angles:
  fixes x :: real
  shows "sin x = 2 * sin (x / 2) * cos (x / 2)"
    and "cos x = (cos (x / 2))\<^sup>2 - (sin (x / 2))\<^sup>2"
    and "(sin (x / 2))\<^sup>2 + (cos (x / 2))\<^sup>2 = 1"
  using sin_double [of "x / 2"] cos_double [of "x / 2"] by simp_all

lemma ref_ToQuaternion_unit:
  assumes "ref_ToQuaternion r p h = (q0, q1, q2, q3)"
  shows "q0\<^sup>2 + q1\<^sup>2 + q2\<^sup>2 + q3\<^sup>2 = 1"
proof -
  define cr sr cp sp ch sh where "cr = cos (r / 2)" and "sr = sin (r / 2)"
    and "cp = cos (p / 2)" and "sp = sin (p / 2)" and "ch = cos (h / 2)" and "sh = sin (h / 2)"
  have u: "sr\<^sup>2 + cr\<^sup>2 = 1" "sp\<^sup>2 + cp\<^sup>2 = 1" "sh\<^sup>2 + ch\<^sup>2 = 1"
    by (simp_all add: cr_def sr_def cp_def sp_def ch_def sh_def)
  have q: "q0 = cr * cp * ch + sr * sp * sh" "q1 = sr * cp * ch - cr * sp * sh"
    "q2 = - (cr * sp * ch) - sr * cp * sh" "q3 = sr * sp * ch - cr * cp * sh"
    using assms
    by (simp_all add: ref_ToQuaternion_def Let_def cr_def sr_def cp_def sp_def ch_def sh_def)
  have "q0\<^sup>2 + q1\<^sup>2 + q2\<^sup>2 + q3\<^sup>2 = (sr\<^sup>2 + cr\<^sup>2) * (sp\<^sup>2 + cp\<^sup>2) * (sh\<^sup>2 + ch\<^sup>2)"
    unfolding q by (simp add: power2_eq_square algebra_simps)
  then show ?thesis by (simp add: u)
qed

text \<open>
  The reference \<open>ToQuaternion\<close> against the extraction of Step 4: the roll and pitch
  formulas (with the standard \<open>ry\<close>) give back roll and pitch, and the heading formula
  gives back the heading at level attitude.
\<close>

lemma ref_ToQuaternion_roll_pitch:
  assumes "ref_ToQuaternion r p h = (q0, q1, q2, q3)"
  shows "2 * (q0 * q1 + q2 * q3) = sin r * cos p"
    and "q0 * q0 - q1 * q1 - q2 * q2 + q3 * q3 = cos r * cos p"
    and "- 2 * (q0 * q2 - q3 * q1) = sin p"
proof -
  define cr sr cp sp ch sh where "cr = cos (r / 2)" and "sr = sin (r / 2)"
    and "cp = cos (p / 2)" and "sp = sin (p / 2)" and "ch = cos (h / 2)" and "sh = sin (h / 2)"
  have u: "sr\<^sup>2 + cr\<^sup>2 = 1" "sp\<^sup>2 + cp\<^sup>2 = 1" "sh\<^sup>2 + ch\<^sup>2 = 1"
    by (simp_all add: cr_def sr_def cp_def sp_def ch_def sh_def)
  have t: "sin r = 2 * sr * cr" "cos r = cr\<^sup>2 - sr\<^sup>2" "sin p = 2 * sp * cp" "cos p = cp\<^sup>2 - sp\<^sup>2"
    unfolding cr_def sr_def cp_def sp_def by (rule half_angles)+
  have q: "q0 = cr * cp * ch + sr * sp * sh" "q1 = sr * cp * ch - cr * sp * sh"
    "q2 = - (cr * sp * ch) - sr * cp * sh" "q3 = sr * sp * ch - cr * cp * sh"
    using assms
    by (simp_all add: ref_ToQuaternion_def Let_def cr_def sr_def cp_def sp_def ch_def sh_def)
  have "2 * (q0 * q1 + q2 * q3) = (2 * sr * cr) * (cp\<^sup>2 - sp\<^sup>2) * (sh\<^sup>2 + ch\<^sup>2)"
    unfolding q by (simp add: power2_eq_square algebra_simps)
  then show "2 * (q0 * q1 + q2 * q3) = sin r * cos p"
    by (simp add: u t)
  have "q0 * q0 - q1 * q1 - q2 * q2 + q3 * q3 = (cr\<^sup>2 - sr\<^sup>2) * (cp\<^sup>2 - sp\<^sup>2) * (sh\<^sup>2 + ch\<^sup>2)"
    unfolding q by (simp add: power2_eq_square algebra_simps)
  then show "q0 * q0 - q1 * q1 - q2 * q2 + q3 * q3 = cos r * cos p"
    by (simp add: u t)
  have "- 2 * (q0 * q2 - q3 * q1) = (2 * sp * cp) * (sr\<^sup>2 + cr\<^sup>2) * (sh\<^sup>2 + ch\<^sup>2)"
    unfolding q by (simp add: power2_eq_square algebra_simps)
  then show "- 2 * (q0 * q2 - q3 * q1) = sin p"
    by (simp add: u t)
qed

lemma ref_ToQuaternion_heading:
  assumes "ref_ToQuaternion 0 0 h = (q0, q1, q2, q3)"
  shows "- 2 * (q0 * q3 - q1 * q2) = sin h"
    and "q0 * q0 + q1 * q1 - q2 * q2 - q3 * q3 = cos h"
proof -
  have q: "q0 = cos (h / 2)" "q1 = 0" "q2 = 0" "q3 = - sin (h / 2)"
    using assms by (simp_all add: ref_ToQuaternion_def Let_def)
  show "- 2 * (q0 * q3 - q1 * q2) = sin h"
    unfolding q using half_angles(1) [of h] by simp
  show "q0 * q0 + q1 * q1 - q2 * q2 - q3 * q3 = cos h"
    unfolding q using half_angles(2) [of h] by (simp add: power2_eq_square)
qed

text \<open>
  The radicand of line 126 is never negative over the reals, so \<open>Sqrt\<close> is only ever
  asked for the root of a number that has one.
\<close>

lemma pitch_radicand_nonneg:
  fixes q0 q1 q2 q3 :: real
  defines "px \<equiv> - 2 * (q0 * q2 - q3 * q1)"
    and "py \<equiv> q0 * q0 + q1 * q1 + q2 * q2 + q3 * q3"
  shows "0 \<le> py * py - px * px"
proof -
  have "py - px = (q0 + q2)\<^sup>2 + (q1 - q3)\<^sup>2"
    by (simp add: px_def py_def power2_eq_square algebra_simps)
  moreover have "py + px = (q0 - q2)\<^sup>2 + (q1 + q3)\<^sup>2"
    by (simp add: px_def py_def power2_eq_square algebra_simps)
  moreover have "py * py - px * px = (py - px) * (py + px)"
    by (simp add: algebra_simps)
  ultimately show ?thesis by simp
qed

text \<open>The sample estimator, field by field.\<close>

lemma s_north_eq:
  "s_north =
     \<lparr>T = 0, E0 = 1, E1 = 0, E2 = 0, E3 = 0, M = Zeros 32 32, N = Zeros 32 32,
      rollGPS = 0, pitchGPS = 0, headingGPS = 0, roll = 0, pitch = 0, heading = 0,
      w1 = 0, w2 = 20, w3 = 0, gs = 20, tr = 0\<rparr>"
  by (simp add: s_north_def InitializeSimple_def new_SimpleState_def init_def m_north_def
      Let_def Hypot_def MinGS_def Atan2_def ref_pkg_def ref_ToQuaternion_def)

subsection \<open>The gate on the elapsed time\<close>

text \<open>
  Claim C6. A measurement whose time is less than \<open>MinDT\<close> after the state's time
  (also one that is not later at all) leaves the whole state as it was.
\<close>

theorem Compute_noop:
  assumes "Measurement.T m - T s < MinDT"
  shows "Compute e s m = s"
  using assms by (simp add: Compute_def Predict_def Update_def)

text \<open>The same measurement twice: the second time nothing happens.\<close>

theorem Compute_noop_witness:
  "Measurement.T m_north - T s_north < MinDT \<and> Compute ref_pkg s_north m_north = s_north"
proof -
  have "Measurement.T m_north - T s_north < MinDT"
    by (simp add: s_north_eq m_north_def MinDT_def)
  then show ?thesis
    using Compute_noop [of m_north s_north ref_pkg] by simp
qed

text \<open>
  Claim C5. A measurement more than \<open>MaxDT\<close> after the state's time leaves the state
  that \<open>InitializeSimple\<close> makes from this measurement alone, but for the two matrices,
  which \<open>init\<close> does not touch; so both outputs, the quaternion and the time are those
  of a fresh estimator, whatever the state was.
\<close>

theorem Compute_stale:
  assumes "MaxDT < Measurement.T m - T s"
  shows "Compute e s m = (InitializeSimple e m)\<lparr>M := M s, N := N s\<rparr>
         \<and> CalcRollPitchHeading (Compute e s m) = CalcRollPitchHeading (InitializeSimple e m)
         \<and> CalcGPSRollPitchHeading (Compute e s m)
             = CalcGPSRollPitchHeading (InitializeSimple e m)
         \<and> (E0 (Compute e s m), E1 (Compute e s m), E2 (Compute e s m), E3 (Compute e s m))
             = (E0 (InitializeSimple e m), E1 (InitializeSimple e m),
                E2 (InitializeSimple e m), E3 (InitializeSimple e m))
         \<and> T (Compute e s m) = T (InitializeSimple e m)"
proof -
  have "\<not> Measurement.T m - T s < MinDT"
    using assms MinDT_less_MaxDT by linarith
  then have "Compute e s m = init e s m"
    using assms by (simp add: Compute_def Predict_def Update_def)
  then have "Compute e s m = (InitializeSimple e m)\<lparr>M := M s, N := N s\<rparr>"
    unfolding InitializeSimple_def Let_def using init_any_state by simp
  then show ?thesis
    by (simp add: CalcRollPitchHeading_def CalcGPSRollPitchHeading_def)
qed

theorem Compute_stale_witness:
  "MaxDT < Measurement.T m_late - T s_north
   \<and> Compute ref_pkg s_north m_late = InitializeSimple ref_pkg m_late
   \<and> heading (Compute ref_pkg s_north m_late) = pi / 2"
proof -
  have late: "MaxDT < Measurement.T m_late - T s_north"
    by (simp add: s_north_eq m_late_def MaxDT_def)
  have "M (InitializeSimple ref_pkg m_late) = M s_north"
    and "N (InitializeSimple ref_pkg m_late) = N s_north"
    by (simp_all add: s_north_eq InitializeSimple_def init_fields)
  then have same: "Compute ref_pkg s_north m_late = InitializeSimple ref_pkg m_late"
    using Compute_stale [OF late, of ref_pkg] by simp
  have "heading (InitializeSimple ref_pkg m_late) = pi / 2"
    by (simp add: InitializeSimple_def init_def m_late_def Let_def Hypot_def MinGS_def
        Atan2_def split: prod.splits)
  with late same show ?thesis by simp
qed

subsection \<open>Quaternion and fused angles\<close>

text \<open>
  Claim C9. After \<open>InitializeSimple\<close>, and after every \<open>Compute\<close> that changes the
  state (the elapsed time is not below \<open>MinDT\<close>), the quaternion of the state is
  \<open>ToQuaternion\<close> of its fused roll, pitch and heading.
\<close>

theorem quaternion_consistent:
  "consistent e (InitializeSimple e m0)
   \<and> (\<not> Measurement.T m - T s < MinDT \<longrightarrow> consistent e (Compute e s m))"
  by (simp add: InitializeSimple_def init_consistent Compute_def Predict_def Update_consistent)

theorem quaternion_consistent_witness:
  "consistent ref_pkg (InitializeSimple ref_pkg m_north)
   \<and> \<not> Measurement.T m_east - T s_north < MinDT
   \<and> consistent ref_pkg (Compute ref_pkg s_north m_east)"
proof -
  have "\<not> Measurement.T m_east - T s_north < MinDT"
    by (simp add: s_north_eq m_east_def MinDT_def)
  then show ?thesis
    using quaternion_consistent [of ref_pkg m_north m_east s_north] by simp
qed

text \<open>So the two never drift apart: every state an estimator reaches is consistent.\<close>

lemma reachable_consistent: "reachable e s \<Longrightarrow> consistent e s"
proof (induction rule: reachable.induct)
  case (initial m)
  show ?case by (simp add: InitializeSimple_def init_consistent)
next
  case (computed s m)
  show ?case
  proof (cases "Measurement.T m - T s < MinDT")
    case True
    then have "Compute e s m = s" by (simp add: Compute_def Predict_def Update_def)
    with computed.IH show ?thesis by simp
  next
    case False
    then show ?thesis by (simp add: Compute_def Predict_def Update_consistent)
  qed
qed

subsection \<open>The GPS attitude\<close>

text \<open>
  Claim C4. In a normal update (elapsed time from \<open>MinDT\<close> to \<open>MaxDT\<close>) whose
  measurement has no valid velocity, or a groundspeed of at most \<open>MinGS\<close>, the GPS
  roll, pitch and heading become the fused roll, pitch and heading from before the
  update, the turn rate becomes 0 and the last velocity (0, 0, 0).
\<close>

theorem Update_hold:
  assumes "MinDT \<le> Measurement.T m - T s" and "Measurement.T m - T s \<le> MaxDT"
    and "\<not> WValid m \<or> Hypot (W1 m) (W2 m) \<le> MinGS"
  shows "CalcGPSRollPitchHeading (Update e s m) = (roll s, pitch s, heading s)
         \<and> tr (Update e s m) = 0
         \<and> (w1 (Update e s m), w2 (Update e s m), w3 (Update e s m)) = (0, 0, 0)"
  using assms(3)
  by (simp add: CalcGPSRollPitchHeading_def Update_normal_gps [OF assms(1,2)] gps_refresh_hold)

text \<open>Once without GPS, once too slow (5 kt).\<close>

theorem Update_hold_witness:
  "MinDT \<le> Measurement.T m_nogps - T s_north \<and> Measurement.T m_nogps - T s_north \<le> MaxDT
   \<and> \<not> WValid m_nogps
   \<and> CalcGPSRollPitchHeading (Update ref_pkg s_north m_nogps) = (0, 0, 0)
   \<and> tr (Update ref_pkg s_north m_nogps) = 0
   \<and> w2 (Update ref_pkg s_north m_nogps) = 0
   \<and> WValid m_slow \<and> Hypot (W1 m_slow) (W2 m_slow) = 5
   \<and> CalcGPSRollPitchHeading (Update ref_pkg s_north m_slow) = (0, 0, 0)
   \<and> w2 (Update ref_pkg s_north m_slow) = 0"
proof -
  have a: "MinDT \<le> Measurement.T m_nogps - T s_north"
      "Measurement.T m_nogps - T s_north \<le> MaxDT" "\<not> WValid m_nogps"
    by (simp_all add: s_north_eq m_nogps_def MinDT_def MaxDT_def)
  have b: "MinDT \<le> Measurement.T m_slow - T s_north"
      "Measurement.T m_slow - T s_north \<le> MaxDT" "WValid m_slow"
      "Hypot (W1 m_slow) (W2 m_slow) = 5"
    by (simp_all add: s_north_eq m_slow_def MinDT_def MaxDT_def Hypot_def)
  have c: "\<not> WValid m_slow \<or> Hypot (W1 m_slow) (W2 m_slow) \<le> MinGS"
    using b(4) by (simp add: MinGS_def)
  show ?thesis
    using a b Update_hold [OF a(1,2), of ref_pkg] Update_hold [OF b(1,2) c, of ref_pkg]
    by (simp add: s_north_eq)
qed

text \<open>
  Claim C7. In a normal update whose measurement has a valid velocity and a
  groundspeed \<open>hypot(w1, w2)\<close> above \<open>MinGS\<close>, the new turn rate is 0.9 times the old
  one plus 0.1 times \<open>(w2 (w1 - lastW1) - w1 (w2 - lastW2))\<close> divided by the
  groundspeed squared and by the elapsed time; then the GPS roll is
  \<open>atan(groundspeed * turnRate / G)\<close> with the new turn rate, the GPS pitch
  \<open>atan2(w3, groundspeed)\<close>, the GPS heading \<open>atan2(w1, w2)\<close>, and the last velocity
  is that of the measurement.
\<close>

theorem Update_gps:
  assumes "MinDT \<le> Measurement.T m - T s" and "Measurement.T m - T s \<le> MaxDT"
    and "WValid m" and "MinGS < Hypot (W1 m) (W2 m)"
  shows "tr (Update e s m) =
           0.9 * tr s + 0.1 * (W2 m * (W1 m - w1 s) - W1 m * (W2 m - w2 s))
             / (Hypot (W1 m) (W2 m))\<^sup>2 / (Measurement.T m - T s)
         \<and> rollGPS (Update e s m) = arctan (Hypot (W1 m) (W2 m) * tr (Update e s m) / G e)
         \<and> pitchGPS (Update e s m) = Atan2 (W3 m) (Hypot (W1 m) (W2 m))
         \<and> headingGPS (Update e s m) = Atan2 (W1 m) (W2 m)
         \<and> (w1 (Update e s m), w2 (Update e s m), w3 (Update e s m)) = (W1 m, W2 m, W3 m)"
  by (simp add: Update_normal_gps [OF assms(1,2)] gps_refresh_valid [OF assms(3,4)])

text \<open>From northbound to eastbound in one second: a turn rate sample of 1 rad/s.\<close>

theorem Update_gps_witness:
  "MinDT \<le> Measurement.T m_east - T s_north \<and> Measurement.T m_east - T s_north \<le> MaxDT
   \<and> WValid m_east \<and> MinGS < Hypot (W1 m_east) (W2 m_east)
   \<and> tr (Update ref_pkg s_north m_east) = 0.1
   \<and> headingGPS (Update ref_pkg s_north m_east) = pi / 2
   \<and> pitchGPS (Update ref_pkg s_north m_east) = 0
   \<and> w1 (Update ref_pkg s_north m_east) = 20"
proof -
  have h: "Hypot (W1 m_east) (W2 m_east) = 20"
    by (simp add: m_east_def Hypot_def)
  have a: "MinDT \<le> Measurement.T m_east - T s_north"
      "Measurement.T m_east - T s_north \<le> MaxDT" "WValid m_east"
      "MinGS < Hypot (W1 m_east) (W2 m_east)"
    by (simp_all add: h) (simp_all add: s_north_eq m_east_def MinDT_def MaxDT_def MinGS_def)
  show ?thesis
    using a Update_gps [OF a, of ref_pkg]
    by (simp add: h) (simp add: s_north_eq m_east_def Atan2_def)
qed

subsection \<open>The damping of the increments\<close>

lemma damp_zero: "damp 0 x = x"
  by (simp add: damp_def)

lemma damp_of_zero: "damp d 0 = 0"
  by (simp add: damp_def)

lemma damp_cases: "damp d x = (if 0 < d * x then 0.9 * x else x)"
  by (simp add: damp_def K_def)

lemma heading_discrepancy_same: "heading_discrepancy h h = 0"
  using pi_gt_zero by (simp add: heading_discrepancy_def Pi_def)

lemma heading_discrepancy_small:
  assumes "- pi \<le> h - g" and "h - g \<le> pi"
  shows "heading_discrepancy h g = h - g"
  using assms by (simp add: heading_discrepancy_def Pi_def Let_def)

lemma heading_discrepancy_cases:
  "heading_discrepancy h g = h - g \<or> heading_discrepancy h g = h - g - 2 * pi
   \<or> heading_discrepancy h g = h - g + 2 * pi"
  by (simp add: heading_discrepancy_def Pi_def Let_def)

lemma heading_discrepancy_range:
  assumes "- pi \<le> h" and "h \<le> pi" and "- pi \<le> g" and "g \<le> pi"
  shows "- pi \<le> heading_discrepancy h g \<and> heading_discrepancy h g \<le> pi"
  using assms by (simp add: heading_discrepancy_def Pi_def Let_def)

text \<open>
  \<open>Regularize\<close> of the reference package leaves an angle of \<open>(-\<pi>, \<pi>]\<close> as it is.
\<close>

lemma wrap_angle_id:
  assumes "- pi < x" and "x \<le> pi"
  shows "wrap_angle x = x"
proof -
  have "- 1 < (x - pi) / (2 * pi)" "(x - pi) / (2 * pi) \<le> 0"
    using assms pi_gt_zero by (simp_all add: field_simps)
  then have "\<lceil>(x - pi) / (2 * pi)\<rceil> = 0"
    by (simp add: ceiling_eq_iff)
  then show ?thesis by (simp add: wrap_angle_def)
qed

text \<open>
  The sample estimator and the sample measurements: the fused angles, the GPS part
  after lines 82-102, and the increments before the damping.
\<close>

lemma s_north_fused:
  "roll s_north = 0" "pitch s_north = 0" "heading s_north = 0" "T s_north = 0"
  by (simp_all add: s_north_eq)

lemma s_north_gps_east:
  "gps_refresh ref_pkg s_north m_turn 1 =
     s_north\<lparr>tr := 0.1, rollGPS := arctan (20 * 0.1 / G ref_pkg), pitchGPS := 0,
       headingGPS := pi / 2, w1 := 20, w2 := 0, w3 := 0, gs := 20\<rparr>"
  by (simp add: gps_refresh_def s_north_eq m_turn_def Let_def Hypot_def MinGS_def Atan_def
      Atan2_def)

lemma s_north_gps_south:
  "gps_refresh ref_pkg s_north m_south 1 =
     s_north\<lparr>tr := 0, rollGPS := 0, pitchGPS := 0,
       headingGPS := pi, w1 := 0, w2 := - 20, w3 := 0, gs := 20\<rparr>"
  by (simp add: gps_refresh_def s_north_eq m_south_def Let_def Hypot_def MinGS_def Atan_def
      Atan2_def)

lemma raw_increments_turn: "raw_increments ref_pkg s_north m_turn = (0, 0, - (pi / 10))"
  by (simp add: raw_increments_def Let_def gps_refresh_keeps quaternion_increment_def
      s_north_eq m_turn_def ref_pkg_def ref_QuaternionRotate_def Sqrt_def)

lemma raw_increments_slow:
  "raw_increments ref_pkg s_north m_slow = (pi / 180, - (pi / 90), - (pi / 60))"
  by (simp add: raw_increments_def Let_def gps_refresh_keeps quaternion_increment_def
      s_north_eq m_slow_def ref_pkg_def ref_QuaternionRotate_def Sqrt_def)

text \<open>
  \<open>wrap_angle\<close> is the wrap into \<open>(-\<pi>, \<pi>]\<close>; the discrepancy of lines 147-152 is that
  wrap of the difference when the difference lies in \<open>(-3\<pi>, 3\<pi>]\<close> and is not \<open>-\<pi>\<close>.
\<close>

lemma wrap_angle_range: "- pi < wrap_angle x \<and> wrap_angle x \<le> pi"
proof -
  define r where "r = (x - pi) / (2 * pi)"
  have c: "of_int \<lceil>r\<rceil> - 1 < r" "r \<le> of_int \<lceil>r\<rceil>"
    by linarith+
  have x: "x = 2 * pi * r + pi"
    using pi_gt_zero by (simp add: r_def field_simps)
  have w: "wrap_angle x = pi - 2 * pi * (of_int \<lceil>r\<rceil> - r)"
    unfolding wrap_angle_def r_def [symmetric] by (subst x) (simp add: algebra_simps)
  have "0 \<le> of_int \<lceil>r\<rceil> - r" "of_int \<lceil>r\<rceil> - r < 1"
    using c by linarith+
  then have "0 \<le> 2 * pi * (of_int \<lceil>r\<rceil> - r)" "2 * pi * (of_int \<lceil>r\<rceil> - r) < 2 * pi"
    using pi_gt_zero by simp_all
  then show ?thesis unfolding w by linarith
qed

lemma wrap_angle_periodic: "wrap_angle (x + 2 * pi * of_int k) = wrap_angle x"
proof -
  have "(x + 2 * pi * of_int k - pi) / (2 * pi) = (x - pi) / (2 * pi) + of_int k"
    using pi_gt_zero by (simp add: field_simps)
  then have "\<lceil>(x + 2 * pi * of_int k - pi) / (2 * pi)\<rceil> = \<lceil>(x - pi) / (2 * pi)\<rceil> + k"
    by simp
  then show ?thesis by (simp add: wrap_angle_def algebra_simps)
qed

lemma wrap_angle_shift:
  assumes "- pi < y" and "y \<le> pi"
  shows "wrap_angle (y + 2 * pi) = y" and "wrap_angle (y - 2 * pi) = y"
proof -
  show "wrap_angle (y + 2 * pi) = y"
    using wrap_angle_periodic [of y 1] wrap_angle_id [OF assms] by simp
  show "wrap_angle (y - 2 * pi) = y"
    using wrap_angle_periodic [of y "- 1"] wrap_angle_id [OF assms] by simp
qed

lemma wrap_angle_minus_pi: "wrap_angle (- pi) = pi"
  using wrap_angle_shift(2) [of pi] pi_gt_zero by simp

lemma heading_discrepancy_unfold:
  "heading_discrepancy h g =
     (if pi < h - g then h - g - 2 * pi else if h - g < - pi then h - g + 2 * pi else h - g)"
  by (simp add: heading_discrepancy_def Pi_def Let_def)

lemma heading_discrepancy_eq_wrap:
  assumes "- (3 * pi) < h - g" and "h - g \<le> 3 * pi" and "h - g \<noteq> - pi"
  shows "heading_discrepancy h g = wrap_angle (h - g)"
proof -
  consider "pi < h - g" | "h - g < - pi" | "- pi < h - g" "h - g \<le> pi"
    using assms(3) by linarith
  then show ?thesis
  proof cases
    case 1
    then have "- pi < h - g - 2 * pi" "h - g - 2 * pi \<le> pi"
      using assms(2) by linarith+
    then have "wrap_angle (h - g - 2 * pi + 2 * pi) = h - g - 2 * pi"
      by (rule wrap_angle_shift(1))
    then show ?thesis using 1 by (simp add: heading_discrepancy_def Pi_def Let_def)
  next
    case 2
    then have "- pi < h - g + 2 * pi" "h - g + 2 * pi \<le> pi"
      using assms(1) by linarith+
    then have "wrap_angle (h - g + 2 * pi - 2 * pi) = h - g + 2 * pi"
      by (rule wrap_angle_shift(2))
    moreover have "\<not> pi < h - g" using 2 pi_gt_zero by linarith
    ultimately show ?thesis using 2 by (simp add: heading_discrepancy_def Pi_def Let_def)
  next
    case 3
    then show ?thesis
      using wrap_angle_id [of "h - g"] by (simp add: heading_discrepancy_def Pi_def Let_def)
  qed
qed

lemma s_north_gps_south_turn:
  "gps_refresh ref_pkg s_north m_south_turn 1 =
     s_north\<lparr>tr := 0, rollGPS := 0, pitchGPS := 0,
       headingGPS := pi, w1 := 0, w2 := - 20, w3 := 0, gs := 20\<rparr>"
  by (simp add: gps_refresh_def s_north_eq m_south_turn_def Let_def Hypot_def MinGS_def Atan_def
      Atan2_def)

lemma raw_increments_south_turn:
  "raw_increments ref_pkg s_north m_south_turn = (0, 0, - (pi / 10))"
  by (simp add: raw_increments_def Let_def gps_refresh_keeps quaternion_increment_def
      s_north_eq m_south_turn_def ref_pkg_def ref_QuaternionRotate_def Sqrt_def)

lemma Regularize_small_heading:
  assumes "- pi < x" and "x \<le> pi"
  shows "Regularize ref_pkg 0 0 x = (0, 0, x)"
  using assms by (simp add: ref_pkg_def ref_Regularize_def wrap_angle_id wrap_angle_0)

text \<open>
  Claim C1, amended. In every normal update (elapsed time from \<open>MinDT\<close> to \<open>MaxDT\<close>),
  for roll, pitch and heading each on its own: with the increment \<open>dr\<close>, \<open>dp\<close>, \<open>dh\<close>
  of lines 113-135 and the discrepancy between the fused angle from before the update
  and the GPS angle of this update, the increment that is added to the fused angle is
  0.9 times the increment when discrepancy times increment is positive, and the
  increment itself otherwise; the fused angles after the update are \<open>Regularize\<close> of
  the sums. For the heading the discrepancy is the difference \<open>d\<close> of fused and GPS
  heading shifted at most once: \<open>d - 2\<pi>\<close> if \<open>d > \<pi>\<close>, \<open>d + 2\<pi>\<close> if \<open>d < -\<pi>\<close>, else \<open>d\<close>.
  That is \<open>d\<close> wrapped into \<open>(-\<pi>, \<pi>]\<close> whenever \<open>d\<close> lies in \<open>(-3\<pi>, 3\<pi>]\<close> and is not
  \<open>-\<pi>\<close>; for \<open>d = -\<pi>\<close> it is \<open>-\<pi>\<close>, where the wrap into \<open>(-\<pi>, \<pi>]\<close> is \<open>\<pi>\<close>.
\<close>

theorem Update_damping:
  assumes "MinDT \<le> Measurement.T m - T s" and "Measurement.T m - T s \<le> MaxDT"
    and "raw_increments e s m = (dr, dp, dh)"
    and "gps_reference e s m = (rG, pG, hG)"
  shows "(let d = heading s - hG;
              ddh = (if pi < d then d - 2 * pi else if d < - pi then d + 2 * pi else d)
          in CalcRollPitchHeading (Update e s m) =
               Regularize e
                 (roll s + (if 0 < (roll s - rG) * dr then 0.9 * dr else dr))
                 (pitch s + (if 0 < (pitch s - pG) * dp then 0.9 * dp else dp))
                 (heading s + (if 0 < ddh * dh then 0.9 * dh else dh))
             \<and> (- (3 * pi) < d \<and> d \<le> 3 * pi \<and> d \<noteq> - pi \<longrightarrow> ddh = wrap_angle d)
             \<and> (d = - pi \<longrightarrow> ddh = - pi \<and> wrap_angle d = pi))"
proof -
  let ?d = "heading s - hG"
  have "discrepancies e s m =
          (roll s - rG, pitch s - pG, heading_discrepancy (heading s) hG)"
    using assms(4)
    by (simp add: discrepancies_def gps_reference_def CalcGPSRollPitchHeading_def
        gps_refresh_keeps Let_def)
  then have a: "CalcRollPitchHeading (Update e s m) =
      Regularize e
        (roll s + (if 0 < (roll s - rG) * dr then 0.9 * dr else dr))
        (pitch s + (if 0 < (pitch s - pG) * dp then 0.9 * dp else dp))
        (heading s + (if 0 < heading_discrepancy (heading s) hG * dh then 0.9 * dh else dh))"
    using Update_normal_fused [OF assms(1,2,3)] by (simp add: damp_cases)
  have b: "- (3 * pi) < ?d \<and> ?d \<le> 3 * pi \<and> ?d \<noteq> - pi
             \<longrightarrow> heading_discrepancy (heading s) hG = wrap_angle ?d"
    using heading_discrepancy_eq_wrap [of "heading s" hG] by blast
  have c: "?d = - pi \<longrightarrow> heading_discrepancy (heading s) hG = - pi \<and> wrap_angle ?d = pi"
    using pi_gt_zero by (auto simp add: heading_discrepancy_unfold wrap_angle_minus_pi)
  show ?thesis
    using a b c unfolding Let_def heading_discrepancy_unfold [symmetric] by blast
qed

text \<open>
  Heading 0, GPS heading \<open>\<pi>/2\<close>, and a yaw rate that gives \<open>dh = -\<pi>/10\<close>: the product
  is positive and the heading moves by \<open>-9\<pi>/100\<close>; roll and pitch have an increment
  of 0, a product of 0, and stay.
\<close>

theorem Update_damping_witness:
  "MinDT \<le> Measurement.T m_turn - T s_north \<and> Measurement.T m_turn - T s_north \<le> MaxDT
   \<and> raw_increments ref_pkg s_north m_turn = (0, 0, - (pi / 10))
   \<and> gps_reference ref_pkg s_north m_turn = (arctan (20 * 0.1 / G ref_pkg), 0, pi / 2)
   \<and> heading s_north - pi / 2 = - (pi / 2)
   \<and> 0 < - (pi / 2) * - (pi / 10)
   \<and> wrap_angle (- (pi / 2)) = - (pi / 2)
   \<and> CalcRollPitchHeading (Update ref_pkg s_north m_turn) = (0, 0, - (9 * pi / 100))"
proof -
  have w: "MinDT \<le> Measurement.T m_turn - T s_north"
      "Measurement.T m_turn - T s_north \<le> MaxDT"
    by (simp_all add: s_north_eq m_turn_def MinDT_def MaxDT_def)
  have dt: "Measurement.T m_turn - T s_north = 1"
    by (simp add: s_north_eq m_turn_def)
  have g: "gps_reference ref_pkg s_north m_turn = (arctan (20 * 0.1 / G ref_pkg), 0, pi / 2)"
    by (simp add: gps_reference_def dt s_north_gps_east CalcGPSRollPitchHeading_def)
  have d: "heading s_north - pi / 2 = - (pi / 2)"
    by (simp add: s_north_fused)
  have n: "\<not> pi < - (pi / 2)" "\<not> - (pi / 2) < - pi" "- (pi / 2) \<noteq> - pi"
      "- (3 * pi) < - (pi / 2)" "- (pi / 2) \<le> 3 * pi"
    using pi_gt_zero by linarith+
  have p: "0 < - (pi / 2) * - (pi / 10)"
    using pi_gt_zero by simp
  have "- pi < - (9 * pi / 100)" "- (9 * pi / 100) \<le> pi"
    using pi_gt_zero by linarith+
  then have r: "Regularize ref_pkg 0 0 (- (9 * pi / 100)) = (0, 0, - (9 * pi / 100))"
    by (rule Regularize_small_heading)
  have "CalcRollPitchHeading (Update ref_pkg s_north m_turn) = (0, 0, - (9 * pi / 100))
        \<and> wrap_angle (- (pi / 2)) = - (pi / 2)"
    using Update_damping [OF w raw_increments_turn g] p r n
    by (simp add: Let_def d s_north_fused)
  with w g p d show ?thesis by (simp add: raw_increments_turn)
qed

text \<open>
  The claim as it stands takes the difference wrapped into \<open>(-\<pi>, \<pi>]\<close>. Northbound
  estimator (heading 0), southbound velocity (GPS heading \<open>\<pi>\<close>) and a yaw rate that
  gives \<open>dh = -\<pi>/10\<close>: the difference \<open>-\<pi>\<close> wrapped into \<open>(-\<pi>, \<pi>]\<close> is \<open>\<pi>\<close>, its product with
  \<open>dh\<close> is negative, and the claim has the heading move by \<open>dh\<close>. The code keeps
  \<open>ddh = -\<pi>\<close>, finds the product positive, and moves the heading by \<open>0.9 dh\<close>.
\<close>

theorem Update_damping_counterexample:
  "MinDT \<le> Measurement.T m_south_turn - T s_north
   \<and> Measurement.T m_south_turn - T s_north \<le> MaxDT
   \<and> raw_increments ref_pkg s_north m_south_turn = (0, 0, - (pi / 10))
   \<and> gps_reference ref_pkg s_north m_south_turn = (0, 0, pi)
   \<and> heading s_north - pi = - pi
   \<and> wrap_angle (- pi) = pi
   \<and> \<not> 0 < wrap_angle (- pi) * - (pi / 10)
   \<and> CalcRollPitchHeading (Update ref_pkg s_north m_south_turn) = (0, 0, 0.9 * - (pi / 10))
   \<and> CalcRollPitchHeading (Update ref_pkg s_north m_south_turn)
       \<noteq> Regularize ref_pkg 0 0 (heading s_north + - (pi / 10))"
proof -
  have w: "MinDT \<le> Measurement.T m_south_turn - T s_north"
      "Measurement.T m_south_turn - T s_north \<le> MaxDT"
    by (simp_all add: s_north_eq m_south_turn_def MinDT_def MaxDT_def)
  have dt: "Measurement.T m_south_turn - T s_north = 1"
    by (simp add: s_north_eq m_south_turn_def)
  have g: "gps_reference ref_pkg s_north m_south_turn = (0, 0, pi)"
    by (simp add: gps_reference_def dt s_north_gps_south_turn CalcGPSRollPitchHeading_def)
  have hd: "heading_discrepancy 0 pi = - pi"
    by (simp add: heading_discrepancy_def Pi_def Let_def)
  have d: "discrepancies ref_pkg s_north m_south_turn = (0, 0, - pi)"
    by (simp add: discrepancies_def dt s_north_gps_south_turn Let_def) (simp add: s_north_eq hd)
  have p: "0 < - pi * - (pi / 10)" "\<not> 0 < pi * - (pi / 10)"
    using pi_gt_zero by (simp_all add: mult_less_0_iff)
  have b: "- pi < - (9 * pi / 100)" "- (9 * pi / 100) \<le> pi"
      "- pi < - (pi / 10)" "- (pi / 10) \<le> pi" "- (9 * pi / 100) \<noteq> - (pi / 10)"
    using pi_gt_zero by linarith+
  have code: "CalcRollPitchHeading (Update ref_pkg s_north m_south_turn)
                = (0, 0, - (9 * pi / 100))"
    using Update_normal_fused [OF w raw_increments_south_turn d] p(1)
      Regularize_small_heading [OF b(1,2)]
    by (simp add: damp_cases s_north_fused)
  have claim: "Regularize ref_pkg 0 0 (heading s_north + - (pi / 10)) = (0, 0, - (pi / 10))"
    using Regularize_small_heading [OF b(3,4)] by (simp add: s_north_fused)
  show ?thesis
    using w g p(2) b(5) code claim
    by (simp add: raw_increments_south_turn wrap_angle_minus_pi s_north_fused)
qed

text \<open>
  Claim C10. In every normal update whose measurement has no valid velocity, or a
  groundspeed of at most \<open>MinGS\<close>, the three discrepancies of lines 141-155 are 0, so no
  increment is multiplied by \<open>K\<close>: the fused angles after the update are \<open>Regularize\<close>
  of the old angles plus the increments of lines 113-135 as they are.
\<close>

theorem Update_hold_undamped:
  assumes "MinDT \<le> Measurement.T m - T s" and "Measurement.T m - T s \<le> MaxDT"
    and "\<not> WValid m \<or> Hypot (W1 m) (W2 m) \<le> MinGS"
    and "raw_increments e s m = (dr, dp, dh)"
  shows "discrepancies e s m = (0, 0, 0)
         \<and> CalcRollPitchHeading (Update e s m) =
             Regularize e (roll s + dr) (pitch s + dp) (heading s + dh)"
proof -
  have d: "discrepancies e s m = (0, 0, 0)"
    using assms(3)
    by (simp add: discrepancies_def Let_def gps_refresh_keeps gps_refresh_hold
        heading_discrepancy_same)
  show ?thesis
    using d Update_normal_fused [OF assms(1,2,4) d] by (simp add: damp_zero)
qed

theorem Update_hold_undamped_witness:
  "MinDT \<le> Measurement.T m_slow - T s_north \<and> Measurement.T m_slow - T s_north \<le> MaxDT
   \<and> Hypot (W1 m_slow) (W2 m_slow) \<le> MinGS
   \<and> raw_increments ref_pkg s_north m_slow = (pi / 180, - (pi / 90), - (pi / 60))
   \<and> discrepancies ref_pkg s_north m_slow = (0, 0, 0)
   \<and> CalcRollPitchHeading (Update ref_pkg s_north m_slow) = (pi / 180, - (pi / 90), - (pi / 60))"
proof -
  have w: "MinDT \<le> Measurement.T m_slow - T s_north"
      "Measurement.T m_slow - T s_north \<le> MaxDT"
    by (simp_all add: s_north_eq m_slow_def MinDT_def MaxDT_def)
  have h: "Hypot (W1 m_slow) (W2 m_slow) \<le> MinGS"
    by (simp add: m_slow_def Hypot_def MinGS_def)
  then have c: "\<not> WValid m_slow \<or> Hypot (W1 m_slow) (W2 m_slow) \<le> MinGS" by simp
  have "- pi < pi / 180" "pi / 180 \<le> pi" "- pi < - (pi / 90)" "- (pi / 90) \<le> pi"
      "- pi < - (pi / 60)" "- (pi / 60) \<le> pi"
    using pi_gt_zero by linarith+
  then have r: "Regularize ref_pkg (pi / 180) (- (pi / 90)) (- (pi / 60))
             = (pi / 180, - (pi / 90), - (pi / 60))"
    by (simp add: ref_pkg_def ref_Regularize_def wrap_angle_id)
  show ?thesis
    using w h Update_hold_undamped [OF w c raw_increments_slow] r
    by (simp add: raw_increments_slow s_north_fused)
qed

subsection \<open>The heading discrepancy\<close>

lemma Atan2_range: "- pi < Atan2 y x \<and> Atan2 y x \<le> pi"
proof -
  have b: "- (pi / 2) < arctan (y / x)" "arctan (y / x) < pi / 2"
    by (rule arctan_lbound, rule arctan_ubound)
  consider "0 < x" | "x < 0" "0 \<le> y" | "x < 0" "y < 0" | "x = 0"
    by linarith
  then show ?thesis
  proof cases
    case 1
    then show ?thesis using b pi_gt_zero by (simp add: Atan2_def)
  next
    case 2
    then have "y / x \<le> 0" by (simp add: divide_nonneg_neg)
    then have "arctan (y / x) \<le> 0" using arctan_le_zero_iff by blast
    then show ?thesis using 2 b pi_gt_zero by (simp add: Atan2_def)
  next
    case 3
    then have "0 < y / x" by (simp add: divide_neg_neg)
    then have "0 < arctan (y / x)" using zero_less_arctan_iff by blast
    then show ?thesis using 3 b pi_gt_zero by (simp add: Atan2_def)
  next
    case 4
    then show ?thesis
      by (auto simp add: Atan2_def) (use pi_gt_zero in linarith)+
  qed
qed

lemma gps_reference_heading_range:
  assumes "- pi \<le> heading s" and "heading s \<le> pi"
  shows "- pi \<le> headingGPS (gps_refresh e s m dt) \<and> headingGPS (gps_refresh e s m dt) \<le> pi"
proof (cases "WValid m \<and> MinGS < Hypot (W1 m) (W2 m)")
  case True
  then show ?thesis
    using Atan2_range [of "W1 m" "W2 m"] by (simp add: gps_refresh_valid)
next
  case False
  then have "\<not> WValid m \<or> Hypot (W1 m) (W2 m) \<le> MinGS" by auto
  then show ?thesis using assms by (simp add: gps_refresh_hold)
qed

text \<open>
  Claim C8, amended. In a normal update whose fused heading lies in \<open>[-\<pi>, \<pi>]\<close>, the
  heading discrepancy that line 153 multiplies with \<open>dh\<close> is the difference \<open>d\<close> of fused
  and GPS heading, shifted by \<open>2\<pi>\<close> at most once: \<open>d - 2\<pi>\<close> if \<open>d > \<pi>\<close>, \<open>d + 2\<pi>\<close> if
  \<open>d < -\<pi>\<close>, and \<open>d\<close> itself otherwise. It lies in the closed interval \<open>[-\<pi>, \<pi>]\<close>: a
  difference of exactly \<open>-\<pi>\<close> stays \<open>-\<pi>\<close> (and one of exactly \<open>\<pi>\<close> stays \<open>\<pi>\<close>); for every
  other difference it is the difference wrapped into \<open>(-\<pi>, \<pi>]\<close>. For the headings 179
  and -179 degrees it is -2 degrees, not 358.
\<close>

theorem heading_wrap:
  assumes "MinDT \<le> Measurement.T m - T s" and "Measurement.T m - T s \<le> MaxDT"
    and "- pi \<le> heading s" and "heading s \<le> pi"
    and "gps_reference e s m = (rG, pG, hG)"
    and "discrepancies e s m = (er, ep, eh)"
  shows "eh = heading_discrepancy (heading s) hG
         \<and> - pi \<le> eh \<and> eh \<le> pi
         \<and> (eh = heading s - hG \<or> eh = heading s - hG - 2 * pi \<or> eh = heading s - hG + 2 * pi)
         \<and> heading_discrepancy (179 * pi / 180) (- (179 * pi / 180)) = - (2 * pi / 180)
         \<and> (pi < heading s - hG \<longrightarrow> eh = heading s - hG - 2 * pi)
         \<and> (heading s - hG < - pi \<longrightarrow> eh = heading s - hG + 2 * pi)
         \<and> (- pi \<le> heading s - hG \<and> heading s - hG \<le> pi \<longrightarrow> eh = heading s - hG)
         \<and> (heading s - hG = - pi \<longrightarrow> eh = - pi)
         \<and> (heading s - hG = pi \<longrightarrow> eh = pi)
         \<and> (heading s - hG \<noteq> - pi \<longrightarrow> - pi < eh \<and> eh = wrap_angle (heading s - hG))"
proof -
  have hG: "hG = headingGPS (gps_refresh e s m (Measurement.T m - T s))"
    using assms(5) by (simp add: gps_reference_def CalcGPSRollPitchHeading_def)
  have eh: "eh = heading_discrepancy (heading s) hG"
    using assms(6) hG by (simp add: discrepancies_def Let_def gps_refresh_keeps)
  have r: "- pi \<le> hG \<and> hG \<le> pi"
    unfolding hG using assms(3,4) by (rule gps_reference_heading_range)
  have ex: "heading_discrepancy (179 * pi / 180) (- (179 * pi / 180)) = - (2 * pi / 180)"
    using pi_gt_zero by (simp add: heading_discrepancy_def Pi_def Let_def)
  have old: "- pi \<le> eh \<and> eh \<le> pi
         \<and> (eh = heading s - hG \<or> eh = heading s - hG - 2 * pi \<or> eh = heading s - hG + 2 * pi)"
    using eh r assms(3,4) heading_discrepancy_range [of "heading s" hG]
      heading_discrepancy_cases [of "heading s" hG]
    by simp
  have c1: "pi < heading s - hG \<longrightarrow> eh = heading s - hG - 2 * pi"
    and c2: "heading s - hG < - pi \<longrightarrow> eh = heading s - hG + 2 * pi"
    and c3: "- pi \<le> heading s - hG \<and> heading s - hG \<le> pi \<longrightarrow> eh = heading s - hG"
    unfolding eh heading_discrepancy_unfold by auto (use pi_gt_zero in linarith)+
  have c4: "heading s - hG = - pi \<longrightarrow> eh = - pi"
    and c5: "heading s - hG = pi \<longrightarrow> eh = pi"
    using c3 pi_gt_zero by auto
  have b: "- (3 * pi) < heading s - hG" "heading s - hG \<le> 3 * pi"
    using r assms(3,4) pi_gt_zero by linarith+
  have c6: "heading s - hG \<noteq> - pi \<longrightarrow> - pi < eh \<and> eh = wrap_angle (heading s - hG)"
    using heading_discrepancy_eq_wrap [OF b] wrap_angle_range [of "heading s - hG"] eh by auto
  show ?thesis
    using eh old ex c1 c2 c3 c4 c5 c6 by blast
qed

theorem heading_wrap_witness:
  "MinDT \<le> Measurement.T m_turn - T s_north \<and> Measurement.T m_turn - T s_north \<le> MaxDT
   \<and> - pi \<le> heading s_north \<and> heading s_north \<le> pi
   \<and> gps_reference ref_pkg s_north m_turn = (arctan (20 * 0.1 / G ref_pkg), 0, pi / 2)
   \<and> discrepancies ref_pkg s_north m_turn = (- arctan (20 * 0.1 / G ref_pkg), 0, - (pi / 2))
   \<and> - pi \<le> - (pi / 2) \<and> - (pi / 2) \<le> pi
   \<and> wrap_angle (heading s_north - pi / 2) = - (pi / 2)
   \<and> MinDT \<le> Measurement.T m_south - T s_north
   \<and> Measurement.T m_south - T s_north \<le> MaxDT
   \<and> gps_reference ref_pkg s_north m_south = (0, 0, pi)
   \<and> heading s_north - pi = - pi
   \<and> discrepancies ref_pkg s_north m_south = (0, 0, - pi)"
proof -
  have w: "MinDT \<le> Measurement.T m_turn - T s_north"
      "Measurement.T m_turn - T s_north \<le> MaxDT"
    by (simp_all add: s_north_eq m_turn_def MinDT_def MaxDT_def)
  have dt: "Measurement.T m_turn - T s_north = 1"
    by (simp add: s_north_eq m_turn_def)
  have hr: "- pi \<le> heading s_north" "heading s_north \<le> pi"
    using pi_gt_zero by (simp_all add: s_north_eq)
  have g: "gps_reference ref_pkg s_north m_turn = (arctan (20 * 0.1 / G ref_pkg), 0, pi / 2)"
    by (simp add: gps_reference_def dt s_north_gps_east CalcGPSRollPitchHeading_def)
  have "- pi \<le> 0 - pi / 2" "0 - pi / 2 \<le> pi"
    using pi_gt_zero by linarith+
  then have hd: "heading_discrepancy 0 (pi / 2) = - (pi / 2)"
    using heading_discrepancy_small [of 0 "pi / 2"] by simp
  have d: "discrepancies ref_pkg s_north m_turn
             = (- arctan (20 * 0.1 / G ref_pkg), 0, - (pi / 2))"
    by (simp add: discrepancies_def dt s_north_gps_east Let_def) (simp add: s_north_eq hd)
  have ne: "heading s_north - pi / 2 \<noteq> - pi"
    using pi_gt_zero by (simp add: s_north_fused)
  have a: "wrap_angle (heading s_north - pi / 2) = - (pi / 2)"
    using heading_wrap [OF w hr g d] ne by simp
  have w2: "MinDT \<le> Measurement.T m_south - T s_north"
      "Measurement.T m_south - T s_north \<le> MaxDT"
    by (simp_all add: s_north_eq m_south_def MinDT_def MaxDT_def)
  have dt2: "Measurement.T m_south - T s_north = 1"
    by (simp add: s_north_eq m_south_def)
  have g2: "gps_reference ref_pkg s_north m_south = (0, 0, pi)"
    by (simp add: gps_reference_def dt2 s_north_gps_south CalcGPSRollPitchHeading_def)
  obtain er ep eh where d2: "discrepancies ref_pkg s_north m_south = (er, ep, eh)"
    by (cases "discrepancies ref_pkg s_north m_south") auto
  have "roll s_north = er \<and> pitch s_north = ep"
    using d2 by (simp add: discrepancies_def dt2 s_north_gps_south Let_def)
  then have r2: "er = 0" "ep = 0"
    by (simp_all add: s_north_fused)
  have b: "heading s_north - pi = - pi"
    by (simp add: s_north_fused)
  have "eh = - pi"
    using heading_wrap [OF w2 hr g2 d2] b by simp
  with d2 r2 have d2': "discrepancies ref_pkg s_north m_south = (0, 0, - pi)"
    by simp
  show ?thesis
    using w hr g d a w2 g2 b d2' heading_wrap [OF w hr g d] by simp
qed

text \<open>
  The claim as it stands asks for the half-open interval \<open>(-\<pi>, \<pi>]\<close>. Northbound
  estimator (heading 0), then a southbound velocity (GPS heading \<open>\<pi>\<close>): the difference
  is \<open>-\<pi>\<close>, line 150 tests \<open>ddh < -Pi\<close>, and \<open>-\<pi>\<close> is what line 153 multiplies.
\<close>

theorem heading_wrap_counterexample:
  "MinDT \<le> Measurement.T m_south - T s_north \<and> Measurement.T m_south - T s_north \<le> MaxDT
   \<and> heading s_north = 0
   \<and> gps_reference ref_pkg s_north m_south = (0, 0, pi)
   \<and> discrepancies ref_pkg s_north m_south = (0, 0, - pi)
   \<and> \<not> (- pi < snd (snd (discrepancies ref_pkg s_north m_south)))"
proof -
  have dt: "Measurement.T m_south - T s_north = 1"
    by (simp add: s_north_eq m_south_def)
  have d: "heading_discrepancy 0 pi = - pi"
    by (simp add: heading_discrepancy_def Pi_def Let_def)
  show ?thesis
    by (simp add: dt MinDT_def MaxDT_def gps_reference_def discrepancies_def Let_def
        s_north_gps_south CalcGPSRollPitchHeading_def d) (simp add: s_north_eq d)
qed

subsection \<open>The roll increment\<close>

text \<open>
  Where \<open>q3 = 0\<close> the code's roll increment is the differential the spec describes.
\<close>

lemma roll_increment_q3_zero:
  "roll_increment (q0, q1, q2, 0) (dq0, dq1, dq2, dq3)
     = spec_roll_increment (q0, q1, q2, 0) (dq0, dq1, dq2, dq3)"
  by (simp add: power2_eq_square)

text \<open>
  Claim C3 says that \<open>dr\<close> is the quotient-rule differential of \<open>atan2(rx, ry)\<close> with
  the standard \<open>ry = q0\<^sup>2 - q1\<^sup>2 - q2\<^sup>2 + q3\<^sup>2\<close>. Line 114 computes \<open>ry\<close> with
  \<open>- q3*q3\<close> (its comment: "this is wrong"), while \<open>dry\<close> of line 116 is the
  differential of the standard \<open>ry\<close>. At the unit quaternion (0.8, 0, 0, 0.6) and the
  increment (0, 0.04, 0.03, 0), a roll step of 0.1 rad, the code's \<open>dr\<close> is 5/14 where
  the differential is 1/10.
\<close>

theorem roll_increment_wrong_ry:
  "roll_increment (0.8, 0, 0, 0.6) (0, 0.04, 0.03, 0) = 5 / 14
   \<and> spec_roll_increment (0.8, 0, 0, 0.6) (0, 0.04, 0.03, 0) = 1 / 10"
  by (simp add: power2_eq_square)

subsection \<open>One measurement, eastbound, with the gyro at rest\<close>

text \<open>A quaternion increment of zero gives increments of zero (numerators of 0).\<close>

lemma zero_increments:
  "roll_increment (q0, q1, q2, q3) (0, 0, 0, 0) = 0"
  "pitch_increment (q0, q1, q2, q3) (0, 0, 0, 0) = 0"
  "heading_increment (q0, q1, q2, q3) (0, 0, 0, 0) = 0"
  by (simp_all add: Let_def)

lemma raw_increments_still:
  assumes "B1 m = 0" and "B2 m = 0" and "B3 m = 0"
    and "QuaternionRotate e (E0 s) (E1 s) (E2 s) (E3 s) 0 0 0 = (E0 s, E1 s, E2 s, E3 s)"
  shows "raw_increments e s m = (0, 0, 0)"
  using assms
  by (simp add: raw_increments_def Let_def gps_refresh_keeps quaternion_increment_def
      zero_increments)

text \<open>
  With zero gyro rates, and a \<open>QuaternionRotate\<close> that leaves the quaternion as it is
  for a zero rotation, a normal update adds nothing to the fused angles: the GPS
  attitude enters lines 141-155 only through the sign tests.
\<close>

lemma Update_still:
  assumes "MinDT \<le> Measurement.T m - T s" and "Measurement.T m - T s \<le> MaxDT"
    and "B1 m = 0" and "B2 m = 0" and "B3 m = 0"
    and "QuaternionRotate e (E0 s) (E1 s) (E2 s) (E3 s) 0 0 0 = (E0 s, E1 s, E2 s, E3 s)"
  shows "CalcRollPitchHeading (Update e s m) = Regularize e (roll s) (pitch s) (heading s)"
proof -
  obtain er ep eh where d: "discrepancies e s m = (er, ep, eh)"
    by (cases "discrepancies e s m") auto
  show ?thesis
    using Update_normal_fused [OF assms(1,2) raw_increments_still [OF assms(3-6)] d]
    by (simp add: damp_of_zero)
qed

lemma eastbound_still:
  assumes "roll s = 0" and "pitch s = 0" and "heading s = 0"
    and "Measurement.T m = 1" and "MinDT \<le> 1 - T s" and "1 - T s \<le> MaxDT"
    and "B1 m = 0" and "B2 m = 0" and "B3 m = 0"
    and "WValid m" and "W1 m = 20" and "W2 m = 0" and "W3 m = 0"
    and "QuaternionRotate e (E0 s) (E1 s) (E2 s) (E3 s) 0 0 0 = (E0 s, E1 s, E2 s, E3 s)"
    and "Regularize e 0 0 0 = (0, 0, 0)"
  shows "headingGPS (Compute e s m) = pi / 2 \<and> heading (Compute e s m) = 0"
proof -
  have w: "MinDT \<le> Measurement.T m - T s" "Measurement.T m - T s \<le> MaxDT"
    using assms(4-6) by simp_all
  have h: "Hypot (W1 m) (W2 m) = 20"
    using assms(11,12) by (simp add: Hypot_def)
  have v: "WValid m" "MinGS < Hypot (W1 m) (W2 m)"
    using assms(10) h by (simp_all add: MinGS_def)
  have "headingGPS (Update e s m) = Atan2 (W1 m) (W2 m)"
    by (simp add: Update_normal_gps [OF w] gps_refresh_valid [OF v])
  then have g: "headingGPS (Update e s m) = pi / 2"
    using assms(11,12) by (simp add: Atan2_def)
  have "CalcRollPitchHeading (Update e s m) = (0, 0, 0)"
    using Update_still [OF w assms(7-9,14)] assms(1-3,15) by simp
  then have "heading (Update e s m) = 0"
    by (simp add: CalcRollPitchHeading_def)
  with g show ?thesis by (simp add: Compute_def Predict_def)
qed

lemma s_level_scenario:
  "roll s_level = 0" "pitch s_level = 0" "heading s_level = 0"
  "consistent ref_pkg s_level" "increments_defined (E0 s_level, E1 s_level, E2 s_level, E3 s_level)"
  "Measurement.T m_east = 1" "MinDT \<le> 1 - T s_level" "1 - T s_level \<le> MaxDT"
  "B1 m_east = 0" "B2 m_east = 0" "B3 m_east = 0"
  "WValid m_east" "W1 m_east = 20" "W2 m_east = 0" "W3 m_east = 0"
  "QuaternionRotate ref_pkg (E0 s_level) (E1 s_level) (E2 s_level) (E3 s_level) 0 0 0
     = (E0 s_level, E1 s_level, E2 s_level, E3 s_level)"
  "Regularize ref_pkg 0 0 0 = (0, 0, 0)"
  by (simp_all add: s_level_def m_east_def consistent_def ref_pkg_def ref_ToQuaternion_def
      ref_QuaternionRotate_def ref_Regularize_def wrap_angle_0 MinDT_def MaxDT_def Sqrt_def)

text \<open>
  Claim C2, amended. From a state with fused roll, pitch and heading 0 (and the
  quaternion of these angles, at which no divisor of lines 117-135 is zero), one
  measurement at time 1 within the normal window, with zero gyro rates and the valid
  velocity (20, 0, 0), leaves the GPS heading \<open>atan2(20, 0) = \<pi>/2\<close> and the fused
  heading 0; this for every package whose \<open>QuaternionRotate\<close> returns the quaternion
  for a zero rotation and whose \<open>Regularize\<close> returns (0, 0, 0) for (0, 0, 0).
\<close>

theorem Compute_eastbound:
  assumes "roll s = 0" and "pitch s = 0" and "heading s = 0"
    and "consistent e s" and "increments_defined (E0 s, E1 s, E2 s, E3 s)"
    and "Measurement.T m = 1" and "MinDT \<le> 1 - T s" and "1 - T s \<le> MaxDT"
    and "B1 m = 0" and "B2 m = 0" and "B3 m = 0"
    and "WValid m" and "W1 m = 20" and "W2 m = 0" and "W3 m = 0"
    and "QuaternionRotate e (E0 s) (E1 s) (E2 s) (E3 s) 0 0 0 = (E0 s, E1 s, E2 s, E3 s)"
    and "Regularize e 0 0 0 = (0, 0, 0)"
  shows "headingGPS (Compute e s m) = pi / 2 \<and> heading (Compute e s m) = 0"
  using assms(1-3,6-17) by (rule eastbound_still)

theorem Compute_eastbound_witness:
  "roll s_level = 0 \<and> pitch s_level = 0 \<and> heading s_level = 0
   \<and> consistent ref_pkg s_level
   \<and> increments_defined (E0 s_level, E1 s_level, E2 s_level, E3 s_level)
   \<and> Measurement.T m_east = 1 \<and> MinDT \<le> 1 - T s_level \<and> 1 - T s_level \<le> MaxDT
   \<and> B1 m_east = 0 \<and> B2 m_east = 0 \<and> B3 m_east = 0
   \<and> WValid m_east \<and> W1 m_east = 20 \<and> W2 m_east = 0 \<and> W3 m_east = 0
   \<and> QuaternionRotate ref_pkg (E0 s_level) (E1 s_level) (E2 s_level) (E3 s_level) 0 0 0
       = (E0 s_level, E1 s_level, E2 s_level, E3 s_level)
   \<and> Regularize ref_pkg 0 0 0 = (0, 0, 0)
   \<and> headingGPS (Compute ref_pkg s_level m_east) = pi / 2
   \<and> heading (Compute ref_pkg s_level m_east) = 0"
  using s_level_scenario Compute_eastbound [OF s_level_scenario] by simp

text \<open>
  The claim as it stands has the fused heading strictly between 0 and \<open>\<pi>/2\<close> after
  this measurement; it is 0.
\<close>

theorem Compute_eastbound_counterexample:
  "heading (Compute ref_pkg s_level m_east) = 0
   \<and> \<not> (headingGPS (Compute ref_pkg s_level m_east) = pi / 2
         \<and> 0 < heading (Compute ref_pkg s_level m_east)
         \<and> heading (Compute ref_pkg s_level m_east) < pi / 2)"
  using eastbound_still [OF s_level_scenario(1-3,6-17)] by simp

end
